theory Spec2Isabelle
  imports Complex_Main "HOL-Library.Sublist"
begin

section \<open>Text primitives used by the diff pipeline\<close>

text \<open>
  Python strings are modelled as \<open>string\<close>. The two characters the normaliser
  looks at are the at-sign of a hunk marker and the line feed the diff is split on.
\<close>

definition AT :: char where
  "AT = CHR ''@''"

definition NL :: char where
  "NL = CHR 0x0A"

text \<open>
  \<^verbatim>\<open>context.split("\n")\<close>: every line feed ends a piece, so a text with \<open>n\<close> line
  feeds has \<open>n + 1\<close> pieces and the empty text has the single piece \<open>''''\<close>.
\<close>

fun split_nl :: "string \<Rightarrow> string list" where
  "split_nl [] = [[]]"
| "split_nl (c # cs) =
     (let ls = split_nl cs
      in if c = NL then [] # ls else (c # hd ls) # tl ls)"

text \<open>\<^verbatim>\<open>"\n".join(pieces)\<close>.\<close>

fun join_nl :: "string list \<Rightarrow> string" where
  "join_nl [] = []"
| "join_nl [l] = l"
| "join_nl (l # l' # ls) = l @ NL # join_nl (l' # ls)"

text \<open>\<^verbatim>\<open>line.startswith(p)\<close>.\<close>

definition startswith :: "string \<Rightarrow> string \<Rightarrow> bool" where
  "startswith s p = (take (length p) s = p)"

text \<open>\<^verbatim>\<open>needle in haystack\<close> on strings: the needle occurs at some position.\<close>

fun contains :: "string \<Rightarrow> string \<Rightarrow> bool" where
  "contains [] needle = (needle = [])"
| "contains (c # cs) needle = (startswith (c # cs) needle \<or> contains cs needle)"

section \<open>The hunk-header substitution\<close>

text \<open>
  \<^verbatim>\<open>re.sub(r"(@@[^@]*@@).*", r"\1", line)\<close>.

  \<open>match_hunk s\<close> is an attempt to match the pattern at the first character of \<open>s\<close>.
  The pattern reads two at-signs, then \<^verbatim>\<open>[^@]*\<close>, then two at-signs, then \<^verbatim>\<open>.*\<close>.
  The star of \<^verbatim>\<open>[^@]*\<close> is greedy and is followed by an at-sign, so the only length
  at which the rest can match is the whole run of characters other than the at-sign:
  a shorter run is followed by a character that is not an at-sign. The class
  \<^verbatim>\<open>[^@]\<close> accepts a line feed; the dot of \<^verbatim>\<open>.*\<close> does not, so the match ends at the
  next line feed or at the end of the text. The result is group 1 and the text that
  follows the match.
\<close>

definition match_hunk :: "string \<Rightarrow> (string \<times> string) option" where
  "match_hunk s =
     (if startswith s ''@@'' then
        let body = takeWhile (\<lambda>c. c \<noteq> AT) (drop 2 s);
            after = dropWhile (\<lambda>c. c \<noteq> AT) (drop 2 s)
        in if startswith after ''@@''
           then Some (''@@'' @ body @ ''@@'', dropWhile (\<lambda>c. c \<noteq> NL) (drop 2 after))
           else None
      else None)"

text \<open>
  The substitution scans the text from the left. Where the pattern matches, the
  match is replaced by group 1 and the scan goes on behind the match; elsewhere the
  character is copied and the scan moves one character on. The pattern never matches
  the empty text, so the scan ends at the end of the text.
\<close>

function re_sub_hunk :: "string \<Rightarrow> string" where
  "re_sub_hunk [] = []"
| "re_sub_hunk (c # cs) =
     (case match_hunk (c # cs) of
        Some (g, r) \<Rightarrow> g @ re_sub_hunk r
      | None \<Rightarrow> c # re_sub_hunk cs)"
  by pat_completeness auto
termination
proof (relation "measure length")
  show "wf (measure length)" by simp
next
  fix c :: char and cs x g r
  assume m: "match_hunk (c # cs) = Some x" and x: "(g, r) = x"
  let ?s = "c # cs"
  let ?after = "dropWhile (\<lambda>c. c \<noteq> AT) (drop 2 ?s)"
  from m x have st: "startswith ?s ''@@''"
    and r: "r = dropWhile (\<lambda>c. c \<noteq> NL) (drop 2 ?after)"
    by (auto simp: match_hunk_def Let_def split: if_splits)
  from st have "2 \<le> length ?s"
    by (cases cs) (auto simp: startswith_def)
  moreover have "length r \<le> length (drop 2 ?after)"
    unfolding r by (rule length_dropWhile_le)
  moreover have "length ?after \<le> length (drop 2 ?s)"
    by (rule length_dropWhile_le)
  ultimately have "length r < length ?s" by simp
  then show "(r, c # cs) \<in> measure length" by simp
next
  fix c :: char and cs
  show "(cs, c # cs) \<in> measure length" by simp
qed

text \<open>The generator expression of lines 83 to 86, for one line and for the whole text.\<close>

definition normalize_line :: "string \<Rightarrow> string" where
  "normalize_line line = (if startswith line ''@@'' then re_sub_hunk line else line)"

definition normalize_diff :: "string \<Rightarrow> string" where
  "normalize_diff context = join_nl (map normalize_line (split_nl context))"

section \<open>Exceptions, the subprocess and the completion endpoint\<close>

text \<open>
  The exceptions the pipeline can meet. \<open>CalledProcessError returncode output stderr\<close>
  is what \<^verbatim>\<open>subprocess.run(..., check=True)\<close> raises on a non-zero exit status.
  \<open>OtherException s\<close> is any other instance of \<^verbatim>\<open>Exception\<close>, with \<open>s\<close> its
  \<^verbatim>\<open>str()\<close>. \<open>NonException s\<close> is an exception that is not an instance of
  \<^verbatim>\<open>Exception\<close> (\<^verbatim>\<open>KeyboardInterrupt\<close>, \<^verbatim>\<open>SystemExit\<close>).
\<close>

datatype exn =
    CalledProcessError int string string
  | OtherException string
  | NonException string

text \<open>\<^verbatim>\<open>isinstance(e, Exception)\<close>, the test of the clause \<^verbatim>\<open>except Exception\<close>.\<close>

fun is_Exception :: "exn \<Rightarrow> bool" where
  "is_Exception (CalledProcessError returncode out err) = True"
| "is_Exception (OtherException s) = True"
| "is_Exception (NonException s) = False"

text \<open>
  What happens to the child process: it runs to its end with a return code and the
  bytes of its two captured streams, or \<^verbatim>\<open>subprocess.run\<close> raises before it has a
  result (no executable, a working directory that cannot be entered, an interrupt).
\<close>

datatype proc =
    Completed int string string
  | NotCompleted exn

text \<open>
  The text mode of \<^verbatim>\<open>subprocess.run\<close>: each captured stream is decoded and then
  \<^verbatim>\<open>data.replace("\r\n", "\n").replace("\r", "\n")\<close> is applied to the text.
\<close>

definition CR :: char where
  "CR = CHR 0x0D"

fun replace_crlf :: "string \<Rightarrow> string" where
  "replace_crlf (c # d # cs) =
     (if c = CR \<and> d = NL then NL # replace_crlf cs else c # replace_crlf (d # cs))"
| "replace_crlf cs = cs"

definition replace_cr :: "string \<Rightarrow> string" where
  "replace_cr s = map (\<lambda>c. if c = CR then NL else c) s"

definition translate_newlines :: "string \<Rightarrow> string" where
  "translate_newlines data = replace_cr (replace_crlf data)"

text \<open>
  \<^verbatim>\<open>subprocess.run(argv, cwd=..., capture_output=True, text=True, check=True)\<close>
  followed by \<^verbatim>\<open>result.stdout\<close>. The codec is the one of the locale and is a
  parameter: \<open>decode bs\<close> is the text of the bytes \<open>bs\<close>, or the message of the
  \<^verbatim>\<open>UnicodeDecodeError\<close> the codec raises on them. Standard output is decoded first,
  then standard error, and only then is the return code looked at.
\<close>

definition subprocess_run :: "(string \<Rightarrow> string + string) \<Rightarrow> proc \<Rightarrow> exn + string" where
  "subprocess_run codec p =
     (case p of
        Completed returncode out err \<Rightarrow>
          (case codec out of
             Inl msg \<Rightarrow> Inl (OtherException msg)
           | Inr out_text \<Rightarrow>
               (case codec err of
                  Inl msg \<Rightarrow> Inl (OtherException msg)
                | Inr err_text \<Rightarrow>
                    if returncode \<noteq> 0
                    then Inl (CalledProcessError returncode
                                (translate_newlines out_text) (translate_newlines err_text))
                    else Inr (translate_newlines out_text)))
      | NotCompleted e \<Rightarrow> Inl e)"

record chat_message =
  role :: string
  content :: string

record request =
  model :: string
  messages :: "chat_message list"
  temperature :: int

record choice =
  message :: chat_message

record chat_completion =
  choices :: "choice list"

text \<open>
  The completion service, reached through the OpenAI handle: it is given the base URL
  and the key the handle was built with and the keyword arguments of
  \<^verbatim>\<open>chat.completions.create\<close>, and answers or raises.
\<close>

type_synonym endpoint = "string \<Rightarrow> string \<Rightarrow> request \<Rightarrow> exn + chat_completion"

text \<open>
  The state of the outside at one run of the pipeline: what running a command in a
  directory gives, the codec of the locale, what
  \<^verbatim>\<open>time.strftime('%Y-%m-%d %H:%M:%S')\<close> prints, and the completion service.
\<close>

record world =
  run_process :: "string list \<Rightarrow> string \<Rightarrow> proc"
  decode :: "string \<Rightarrow> string + string"
  strftime :: string
  create :: endpoint

section \<open>DistilLabsLLM\<close>

definition DEFAULT_QUESTION :: string where
  "DEFAULT_QUESTION = ''Process the context according to the task description.''"

text \<open>\<^verbatim>\<open>f"{port}"\<close>: the decimal digits of an integer.\<close>

fun str_nat :: "nat \<Rightarrow> string" where
  "str_nat n =
     (if n < 10 then [char_of (48 + n)]
      else str_nat (n div 10) @ [char_of (48 + n mod 10)])"

definition str_int :: "int \<Rightarrow> string" where
  "str_int i = (if i < 0 then CHR ''-'' # str_nat (nat (- i)) else str_nat (nat i))"

text \<open>
  An object of the class: \<^verbatim>\<open>self.model_name\<close>, and \<^verbatim>\<open>self.client\<close> as the two
  arguments its OpenAI handle was built from.
\<close>

record DistilLabsLLM =
  model_name :: string
  base_url :: string
  api_key :: string

definition DistilLabsLLM_init :: "string \<Rightarrow> string \<Rightarrow> int \<Rightarrow> DistilLabsLLM" where
  "DistilLabsLLM_init name key port =
     \<lparr>model_name = name,
      base_url = ''http://127.0.0.1:'' @ str_int port @ ''/v1'',
      api_key = key\<rparr>"

definition SYSTEM_CONTENT :: string where
  "SYSTEM_CONTENT = join_nl
     [[],
      ''You are a problem solving model working on task_description XML block:'',
      ''<task_description>## Task'',
      ''Generate a concise yet informative git commit message draft from a `git diff` ''
        @ ''output. The message should include a title (under 50 characters) and ''
        @ ''optionally a body for additional context when necessary. The commit message ''
        @ ''should summarize the changes by identifying what was added, modified, or ''
        @ ''removed, and explain the purpose or impact of those changes in a clear, ''
        @ ''technical manner.'',
      [],
      ''## Inputs'',
      ''The raw output string from the `git diff` command, which shows changes between ''
        @ ''commits, commit and working tree, etc. This includes file paths, added/removed ''
        @ ''lines, and change context across multiple files. The diff may include code ''
        @ ''modifications, new files, deleted files, and comments indicating the nature of ''
        @ ''changes.'',
      [],
      ''## Outputs'',
      ''A string in conventional git commit message format: a title line (<=50 ''
        @ ''characters) followed by an optional blank line and a body paragraph for ''
        @ ''elaboration. The body should provide specific details about the changes made, ''
        @ ''including functionality added, bugs fixed, or architectural improvements. Omit ''
        @ ''the body if the title sufficiently describes the changes.</task_description>'',
      ''You will be given a single task with context in the context XML block and the ''
        @ ''task in the question XML block'',
      ''Solve the task in question block based on the context in context block.'',
      ''Generate only the answer, do not generate anything else'',
      []]"

text \<open>The lines of the user message in front of the two tagged blocks.\<close>

definition USER_HEAD :: string where
  "USER_HEAD = join_nl
     [[],
      [],
      ''Now for the real task, solve the task in question block based on the context ''
        @ ''in context block.'',
      ''Generate only the solution, do not generate anything else'',
      []]"

definition get_prompt :: "string \<Rightarrow> string \<Rightarrow> chat_message list" where
  "get_prompt question context =
     [\<lparr>role = ''system'', content = SYSTEM_CONTENT\<rparr>,
      \<lparr>role = ''user'',
       content = USER_HEAD
         @ ''<context>'' @ context @ ''</context>'' @ [NL]
         @ ''<question>'' @ question @ ''</question>'' @ [NL]\<rparr>]"

text \<open>The keyword arguments \<open>invoke\<close> passes to \<^verbatim>\<open>chat.completions.create\<close>.\<close>

definition completion_request :: "DistilLabsLLM \<Rightarrow> string \<Rightarrow> string \<Rightarrow> request" where
  "completion_request self question context =
     \<lparr>model = model_name self,
      messages = get_prompt question context,
      temperature = 0\<rparr>"

text \<open>
  \<open>invoke\<close> makes the one call and reads \<^verbatim>\<open>choices[0].message.content\<close>; an answer
  without choices makes the index fail.
\<close>

definition invoke :: "endpoint \<Rightarrow> DistilLabsLLM \<Rightarrow> string \<Rightarrow> string \<Rightarrow> exn + string" where
  "invoke service self question context =
     (case service (base_url self) (api_key self) (completion_request self question context) of
        Inl e \<Rightarrow> Inl e
      | Inr chat_response \<Rightarrow>
          (case choices chat_response of
             [] \<Rightarrow> Inl (OtherException ''list index out of range'')
           | c # _ \<Rightarrow> Inr (content (message c))))"

section \<open>The pipeline\<close>

text \<open>
  What one call of \<open>run_git_diff_analysis\<close> did: the lines it printed to standard
  output and to standard error (one entry for each \<^verbatim>\<open>print\<close>), the requests that
  went to the completion service, and the exception that left the function, if any.
\<close>

record run_report =
  stdout :: "string list"
  stderr :: "string list"
  sent :: "request list"
  raised :: "exn option"

definition GIT_DIFF :: "string list" where
  "GIT_DIFF = [''git'', ''diff'', ''--no-ext-diff'', ''-U0'', ''HEAD'']"

definition banner :: "string \<Rightarrow> string list" where
  "banner now_text =
     [NL # replicate 60 (CHR ''=''),
      ''Changes detected at '' @ now_text,
      [],
      ''Generating commit message suggestion'',
      replicate 60 (CHR ''='') @ [NL],
      []]"

definition run_git_diff_analysis :: "world \<Rightarrow> string \<Rightarrow> DistilLabsLLM \<Rightarrow> run_report" where
  "run_git_diff_analysis w repository_path client =
     (case subprocess_run (decode w) (run_process w GIT_DIFF repository_path) of
        Inl (CalledProcessError returncode out err) \<Rightarrow>
          \<lparr>stdout = [], stderr = [''Error running git diff: '' @ err],
           sent = [], raised = None\<rparr>
      | Inl (OtherException s) \<Rightarrow>
          \<lparr>stdout = [], stderr = [''Error: '' @ s], sent = [], raised = None\<rparr>
      | Inl (NonException s) \<Rightarrow>
          \<lparr>stdout = [], stderr = [], sent = [], raised = Some (NonException s)\<rparr>
      | Inr out \<Rightarrow>
          (let context = normalize_diff out
           in if context = [] then
                \<lparr>stdout = [''No changes found''], stderr = [], sent = [], raised = None\<rparr>
              else
                (case invoke (create w) client DEFAULT_QUESTION context of
                   Inl e \<Rightarrow>
                     \<lparr>stdout = banner (strftime w), stderr = [],
                      sent = [completion_request client DEFAULT_QUESTION context],
                      raised = Some e\<rparr>
                 | Inr answer \<Rightarrow>
                     \<lparr>stdout = banner (strftime w) @ [answer], stderr = [],
                      sent = [completion_request client DEFAULT_QUESTION context],
                      raised = None\<rparr>)))"

section \<open>RepositoryChangeHandler\<close>

text \<open>
  The handler object. Times are the readings of \<^verbatim>\<open>time.time()\<close>; the handler only
  subtracts two of them and compares the difference with the interval, so the type of
  times is left open.
\<close>

record 't RepositoryChangeHandler =
  repository_path :: string
  client :: DistilLabsLLM
  debounce_seconds :: 't
  last_trigger_time :: 't

definition RepositoryChangeHandler_init ::
  "string \<Rightarrow> DistilLabsLLM \<Rightarrow> 't \<Rightarrow> ('t::zero) RepositoryChangeHandler" where
  "RepositoryChangeHandler_init path llm seconds =
     \<lparr>repository_path = path, client = llm,
      debounce_seconds = seconds, last_trigger_time = 0\<rparr>"

record event =
  src_path :: string
  is_directory :: bool

datatype outcome = Ignored | Debounced | Ran run_report

text \<open>
  \<open>on_any_event w current_time self event\<close>: the handler called with \<open>event\<close> when
  \<^verbatim>\<open>time.time()\<close> reads \<open>current_time\<close> and the outside is \<open>w\<close>. The new time is
  stored before the pipeline runs, so the handler keeps it however the run ends.
\<close>

definition on_any_event ::
  "world \<Rightarrow> 't \<Rightarrow> 't RepositoryChangeHandler \<Rightarrow> event
     \<Rightarrow> outcome \<times> ('t::{minus,ord}) RepositoryChangeHandler" where
  "on_any_event w current_time self event =
     (if contains (src_path event) ''.git'' \<or> is_directory event then (Ignored, self)
      else if debounce_seconds self \<le> current_time - last_trigger_time self then
        (Ran (run_git_diff_analysis w (repository_path self) (client self)),
         self\<lparr>last_trigger_time := current_time\<rparr>)
      else (Debounced, self))"

text \<open>The guard of line 118, and whether a call of the handler ran the pipeline.\<close>

definition ignored :: "event \<Rightarrow> bool" where
  "ignored event = (contains (src_path event) ''.git'' \<or> is_directory event)"


text \<open>The handler called with one event after the other, each with its own time and outside.\<close>

fun deliver ::
  "('t::{minus,ord}) RepositoryChangeHandler \<Rightarrow> (world \<times> 't \<times> event) list
     \<Rightarrow> outcome list \<times> 't RepositoryChangeHandler" where
  "deliver self [] = ([], self)"
| "deliver self ((w, current_time, event) # rest) =
     (let (r, self') = on_any_event w current_time self event;
          (rs, self'') = deliver self' rest
      in (r # rs, self''))"

section \<open>The main program\<close>

text \<open>
  The file system as the start-up code sees it:
  \<^verbatim>\<open>os.path.abspath(os.path.expanduser(p))\<close> and \<^verbatim>\<open>os.path.exists(p)\<close>.
\<close>

record filesystem =
  resolve :: "string \<Rightarrow> string"
  path_exists :: "string \<Rightarrow> bool"

text \<open>
  How the start-up ends: the process has exited with a status, an exception has left
  the one-shot run uncaught, or the observer has been started with the handler and the
  main thread waits for the interrupt.
\<close>

datatype ending = Exited int | Uncaught exn | Watching

record 't main_report =
  out_lines :: "string list"
  err_lines :: "string list"
  made_client :: "DistilLabsLLM option"
  made_handler :: "'t RepositoryChangeHandler option"
  runs :: "run_report list"
  ending :: ending

definition main ::
  "filesystem \<Rightarrow> world \<Rightarrow> string \<Rightarrow> string \<Rightarrow> int \<Rightarrow> string \<Rightarrow> bool
     \<Rightarrow> ('t::{zero,numeral}) main_report" where
  "main fs w arg_api_key arg_model arg_port arg_repository arg_watch =
     (let path = resolve fs arg_repository
      in if \<not> path_exists fs path then
           \<lparr>out_lines = [],
            err_lines = [''Error: Repository path does not exist: '' @ path],
            made_client = None, made_handler = None, runs = [], ending = Exited 1\<rparr>
         else
           (let llm = DistilLabsLLM_init arg_model arg_api_key arg_port
            in if arg_watch then
                 \<lparr>out_lines = [''Watching repository: '' @ path,
                               ''Press Ctrl+C to stop...'' @ [NL]],
                  err_lines = [],
                  made_client = Some llm,
                  made_handler = Some (RepositoryChangeHandler_init path llm 10),
                  runs = [], ending = Watching\<rparr>
               else
                 (let r = run_git_diff_analysis w path llm
                  in \<lparr>out_lines =
                         ''Try --watch to watch for file changes and run continuously''
                           # stdout r,
                       err_lines = stderr r,
                       made_client = Some llm,
                       made_handler = None,
                       runs = [r],
                       ending = (case raised r of None \<Rightarrow> Exited 0 | Some e \<Rightarrow> Uncaught e)\<rparr>)))"

section \<open>Sample inputs\<close>

text \<open>
  Concrete values for the closed theorems below: a completion service that answers
  with one choice, a codec, an outside in which the child process ends as given, the
  client the command line builds by default, and the event of a file.
\<close>

definition answering :: "string \<Rightarrow> endpoint" where
  "answering text = (\<lambda>url key req. Inr \<lparr>choices = [\<lparr>message = \<lparr>role = ''assistant'', content = text\<rparr>\<rparr>]\<rparr>)"

text \<open>
  A codec that agrees with UTF-8 on the bytes it accepts: the bytes below 128 stand
  for themselves, and a text with any other byte is refused here.
\<close>

definition sample_codec :: "string \<Rightarrow> string + string" where
  "sample_codec bs =
     (case find (\<lambda>c. 127 < (of_char c :: nat)) bs of
        None \<Rightarrow> Inr bs
      | Some c \<Rightarrow> Inl ''utf-8 codec can not decode byte: invalid start byte'')"

definition world_with :: "proc \<Rightarrow> world" where
  "world_with p =
     \<lparr>run_process = (\<lambda>argv cwd. p), decode = sample_codec,
      strftime = ''2025-01-01 12:00:00'',
      create = answering ''Fix typo in README''\<rparr>"

definition sample_llm :: DistilLabsLLM where
  "sample_llm = DistilLabsLLM_init ''commit-bot-llama-1.0-1B'' ''EMPTY'' 11434"

definition file_event :: "string \<Rightarrow> event" where
  "file_event path = \<lparr>src_path = path, is_directory = False\<rparr>"

text \<open>A file system in which \<open>/repo\<close> is the only path that exists.\<close>

definition only_repo :: filesystem where
  "only_repo = \<lparr>resolve = (\<lambda>p. p), path_exists = (\<lambda>p. p = ''/repo'')\<rparr>"

section \<open>Properties of the normaliser\<close>

subsection \<open>Splitting and joining lines\<close>

lemma split_nl_nonempty: "split_nl s \<noteq> []"
  by (induction s) (auto simp: Let_def)

lemma join_nl_Cons: "ls \<noteq> [] \<Longrightarrow> join_nl (l # ls) = l @ NL # join_nl ls"
  by (cases ls) auto

lemma join_split_nl: "join_nl (split_nl s) = s"
proof (induction s)
  case Nil
  show ?case by simp
next
  case (Cons c cs)
  obtain l ls where sp: "split_nl cs = l # ls"
    using split_nl_nonempty [of cs] by (cases "split_nl cs") auto
  show ?case
  proof (cases "c = NL")
    case True
    with Cons sp show ?thesis by (simp add: join_nl_Cons)
  next
    case False
    with Cons sp show ?thesis by (cases ls) (auto simp: Let_def)
  qed
qed

lemma split_nl_lines: "l \<in> set (split_nl s) \<Longrightarrow> NL \<notin> set l"
proof (induction s arbitrary: l)
  case Nil
  then show ?case by simp
next
  case (Cons c cs)
  obtain k ks where sp: "split_nl cs = k # ks"
    using split_nl_nonempty [of cs] by (cases "split_nl cs") auto
  from Cons sp show ?case
    by (auto simp: Let_def split: if_splits)
qed

lemma split_nl_line: "NL \<notin> set l \<Longrightarrow> split_nl l = [l]"
  by (induction l) (auto simp: Let_def)

lemma split_nl_append: "NL \<notin> set l \<Longrightarrow> split_nl (l @ NL # s) = l # split_nl s"
  by (induction l) (auto simp: Let_def)

lemma split_join_nl:
  "ls \<noteq> [] \<Longrightarrow> \<forall>l \<in> set ls. NL \<notin> set l \<Longrightarrow> split_nl (join_nl ls) = ls"
proof (induction ls rule: join_nl.induct)
  case 1
  then show ?case by simp
next
  case (2 l)
  then show ?case by (simp add: split_nl_line)
next
  case (3 l l' ls)
  then show ?case by (simp add: split_nl_append)
qed

subsection \<open>The substitution on one line\<close>

lemma startswith_at2: "startswith s ''@@'' \<longleftrightarrow> (\<exists>t. s = AT # AT # t)"
  by (cases s; cases "tl s") (auto simp: startswith_def AT_def)

lemma match_hunk_marker:
  assumes "AT \<notin> set body"
  shows "match_hunk (AT # AT # body @ AT # AT # tail)
           = Some (AT # AT # body @ [AT, AT], dropWhile (\<lambda>c. c \<noteq> NL) tail)"
proof -
  have tw: "takeWhile (\<lambda>c. c \<noteq> AT) (body @ AT # AT # tail) = body"
    using assms by (induction body) auto
  have dw: "dropWhile (\<lambda>c. c \<noteq> AT) (body @ AT # AT # tail) = AT # AT # tail"
    using assms by (induction body) auto
  show ?thesis
    by (simp add: match_hunk_def startswith_at2 tw dw Let_def) (simp add: AT_def)
qed

lemma match_hunk_SomeD:
  assumes "match_hunk s = Some (g, r)"
  shows "\<exists>body tail. s = AT # AT # body @ AT # AT # tail \<and> AT \<notin> set body
           \<and> g = AT # AT # body @ [AT, AT] \<and> r = dropWhile (\<lambda>c. c \<noteq> NL) tail"
proof -
  let ?P = "\<lambda>c. c \<noteq> AT"
  from assms obtain t where s: "s = AT # AT # t"
    by (auto simp: match_hunk_def startswith_at2 split: if_splits)
  from assms s obtain tail where dw: "dropWhile ?P t = AT # AT # tail"
    by (auto simp: match_hunk_def startswith_at2 Let_def split: if_splits)
  have t: "t = takeWhile ?P t @ AT # AT # tail"
    using takeWhile_dropWhile_id [of ?P t] dw by simp
  have nb: "AT \<notin> set (takeWhile ?P t)"
    by (auto dest: set_takeWhileD)
  from assms s dw have "g = AT # AT # takeWhile ?P t @ [AT, AT]" "r = dropWhile (\<lambda>c. c \<noteq> NL) tail"
    by (auto simp: match_hunk_def startswith_at2 Let_def AT_def split: if_splits)
  with s t nb show ?thesis by metis
qed


lemma NL_free_dropWhile: "NL \<notin> set t \<Longrightarrow> dropWhile (\<lambda>c. c \<noteq> NL) t = []"
  by (induction t) auto

lemma match_hunk_extend:
  assumes "match_hunk p = Some (g, r)"
  shows "\<exists>r'. match_hunk (p @ q) = Some (g, r')"
proof -
  from match_hunk_SomeD [OF assms] obtain body tail where
    p: "p = AT # AT # body @ AT # AT # tail" and b: "AT \<notin> set body"
    and g: "g = AT # AT # body @ [AT, AT]" by blast
  from p have "p @ q = AT # AT # body @ AT # AT # (tail @ q)" by simp
  with match_hunk_marker [OF b, of "tail @ q"] g show ?thesis by simp
qed

lemma re_sub_hunk_prefix: "NL \<notin> set s \<Longrightarrow> prefix (re_sub_hunk s) s"
proof (induction s)
  case Nil
  show ?case by simp
next
  case (Cons c cs)
  show ?case
  proof (cases "match_hunk (c # cs)")
    case None
    with Cons show ?thesis by simp
  next
    case (Some gr)
    obtain g r where gr: "gr = (g, r)" by (cases gr)
    from match_hunk_SomeD [OF Some [unfolded gr]] obtain body tail where
      s: "c # cs = AT # AT # body @ AT # AT # tail"
      and g: "g = AT # AT # body @ [AT, AT]" and r: "r = dropWhile (\<lambda>c. c \<noteq> NL) tail"
      by blast
    from Cons.prems s have "NL \<notin> set tail"
      by (metis Un_iff set_append set_subset_Cons subsetD)
    then have "r = []" using r by (simp add: NL_free_dropWhile)
    with Some gr have "re_sub_hunk (c # cs) = g" by simp
    moreover have "prefix g (c # cs)" unfolding s g by (simp add: prefix_def)
    ultimately show ?thesis by simp
  qed
qed

lemma re_sub_hunk_NL_free: "NL \<notin> set s \<Longrightarrow> NL \<notin> set (re_sub_hunk s)"
  using re_sub_hunk_prefix [of s] set_mono_prefix [of "re_sub_hunk s" s] by blast

lemma re_sub_hunk_idem: "NL \<notin> set s \<Longrightarrow> re_sub_hunk (re_sub_hunk s) = re_sub_hunk s"
proof (induction s)
  case Nil
  show ?case by simp
next
  case (Cons c cs)
  from Cons.prems have cs: "NL \<notin> set cs" by simp
  show ?case
  proof (cases "match_hunk (c # cs)")
    case None
    from re_sub_hunk_prefix [OF cs] obtain z where z: "cs = re_sub_hunk cs @ z"
      by (auto simp: prefix_def)
    have "match_hunk (c # re_sub_hunk cs) = None"
    proof (rule ccontr)
      assume "match_hunk (c # re_sub_hunk cs) \<noteq> None"
      then obtain g r where "match_hunk (c # re_sub_hunk cs) = Some (g, r)" by auto
      from match_hunk_extend [OF this, of z] z None show False by simp
    qed
    with None Cons.IH [OF cs] show ?thesis by simp
  next
    case (Some gr)
    obtain g r where gr: "gr = (g, r)" by (cases gr)
    from match_hunk_SomeD [OF Some [unfolded gr]] obtain body tail where
      s: "c # cs = AT # AT # body @ AT # AT # tail" and b: "AT \<notin> set body"
      and g: "g = AT # AT # body @ [AT, AT]" and r: "r = dropWhile (\<lambda>c. c \<noteq> NL) tail"
      by blast
    from Cons.prems s have "NL \<notin> set tail"
      by (metis Un_iff set_append set_subset_Cons subsetD)
    then have "r = []" using r by (simp add: NL_free_dropWhile)
    with Some gr have res: "re_sub_hunk (c # cs) = g" by simp
    have "match_hunk g = Some (g, [])"
      using match_hunk_marker [OF b, of "[]"] g by simp
    then have "re_sub_hunk g = g" unfolding g by simp
    with res show ?thesis by simp
  qed
qed

lemma normalize_line_idem:
  "NL \<notin> set l \<Longrightarrow> normalize_line (normalize_line l) = normalize_line l"
  by (simp add: normalize_line_def re_sub_hunk_idem)

lemma normalize_line_NL_free: "NL \<notin> set l \<Longrightarrow> NL \<notin> set (normalize_line l)"
  by (simp add: normalize_line_def re_sub_hunk_NL_free)

lemma split_normalize_diff: "split_nl (normalize_diff x) = map normalize_line (split_nl x)"
  unfolding normalize_diff_def
  by (rule split_join_nl) (auto simp: split_nl_nonempty dest: split_nl_lines normalize_line_NL_free)

text \<open>
  Claim C3. The normaliser is idempotent: for every diff text \<open>x\<close>, normalising the
  normalised text gives the normalised text again.
\<close>

theorem normalize_diff_idempotent: "normalize_diff (normalize_diff x) = normalize_diff x"
proof -
  have "map normalize_line (map normalize_line (split_nl x)) = map normalize_line (split_nl x)"
    by (auto dest: split_nl_lines simp: normalize_line_idem)
  moreover have "normalize_diff (normalize_diff x)
      = join_nl (map normalize_line (split_nl (normalize_diff x)))"
    by (simp only: normalize_diff_def)
  ultimately show ?thesis
    by (simp only: split_normalize_diff) (simp only: normalize_diff_def)
qed

lemma re_sub_hunk_no_marker:
  "\<nexists>p s rest. line = p @ AT # AT # s @ AT # AT # rest \<and> AT \<notin> set s
     \<Longrightarrow> re_sub_hunk line = line"
proof (induction line)
  case Nil
  show ?case by simp
next
  case (Cons c cs)
  have "match_hunk (c # cs) = None"
  proof (rule ccontr)
    assume "match_hunk (c # cs) \<noteq> None"
    then obtain g r where "match_hunk (c # cs) = Some (g, r)" by auto
    from match_hunk_SomeD [OF this] obtain body tail where
      "c # cs = [] @ AT # AT # body @ AT # AT # tail" "AT \<notin> set body" by auto
    with Cons.prems show False by blast
  qed
  moreover have "\<nexists>p s rest. cs = p @ AT # AT # s @ AT # AT # rest \<and> AT \<notin> set s"
  proof
    assume "\<exists>p s rest. cs = p @ AT # AT # s @ AT # AT # rest \<and> AT \<notin> set s"
    then obtain p s rest where "cs = p @ AT # AT # s @ AT # AT # rest" "AT \<notin> set s" by blast
    then have "c # cs = (c # p) @ AT # AT # s @ AT # AT # rest" by simp
    with \<open>AT \<notin> set s\<close> Cons.prems show False by blast
  qed
  ultimately show ?case using Cons.IH by simp
qed

lemma normalize_line_marker:
  assumes "AT \<notin> set s" and "NL \<notin> set rest"
  shows "normalize_line (''@@'' @ s @ ''@@'' @ rest) = ''@@'' @ s @ ''@@''"
proof -
  have eq: "''@@'' @ s @ ''@@'' @ rest = AT # AT # s @ AT # AT # rest"
    by (simp add: AT_def)
  have "match_hunk (AT # AT # s @ AT # AT # rest) = Some (AT # AT # s @ [AT, AT], [])"
    using match_hunk_marker [OF assms(1), of rest] assms(2) by (simp add: NL_free_dropWhile)
  then have "re_sub_hunk (AT # AT # s @ AT # AT # rest) = AT # AT # s @ [AT, AT]"
    by simp
  moreover have "startswith (AT # AT # s @ AT # AT # rest) ''@@''"
    by (simp add: startswith_at2)
  ultimately show ?thesis
    unfolding eq normalize_line_def by (simp add: AT_def)
qed

text \<open>
  Claim C4, with its last part amended. The normaliser works line by line: the lines
  of the normalised text are the normalised lines of the text. A line that begins with
  a marker pair (two at-signs, a text without at-sign, two at-signs) keeps the pair and
  loses everything behind the closing at-signs. A line that does not begin with two
  at-signs passes through unchanged, and so does a line in which no marker pair
  occurs at any position.
\<close>

theorem normalize_diff_linewise:
  "split_nl (normalize_diff x) = map normalize_line (split_nl x)
   \<and> (\<forall>line \<in> set (split_nl x).
        (\<forall>s rest. line = ''@@'' @ s @ ''@@'' @ rest \<and> AT \<notin> set s
            \<longrightarrow> normalize_line line = ''@@'' @ s @ ''@@'')
      \<and> (\<not> startswith line ''@@'' \<longrightarrow> normalize_line line = line)
      \<and> ((\<nexists>p s rest. line = p @ ''@@'' @ s @ ''@@'' @ rest \<and> AT \<notin> set s)
            \<longrightarrow> normalize_line line = line))"
proof (intro conjI ballI allI impI)
  show "split_nl (normalize_diff x) = map normalize_line (split_nl x)"
    by (rule split_normalize_diff)
next
  fix line s rest
  assume l: "line \<in> set (split_nl x)"
    and m: "line = ''@@'' @ s @ ''@@'' @ rest \<and> AT \<notin> set s"
  from split_nl_lines [OF l] m have "NL \<notin> set rest" by auto
  moreover from m have "AT \<notin> set s" and "line = ''@@'' @ s @ ''@@'' @ rest" by simp_all
  ultimately show "normalize_line line = ''@@'' @ s @ ''@@''"
    using normalize_line_marker [of s rest] by simp
next
  fix line
  assume "\<not> startswith line ''@@''"
  then show "normalize_line line = line" by (simp add: normalize_line_def)
next
  fix line
  assume "\<nexists>p s rest. line = p @ ''@@'' @ s @ ''@@'' @ rest \<and> AT \<notin> set s"
  then have "\<nexists>p s rest. line = p @ AT # AT # s @ AT # AT # rest \<and> AT \<notin> set s"
    by (simp add: AT_def)
  then have "re_sub_hunk line = line" by (rule re_sub_hunk_no_marker)
  then show "normalize_line line = line" by (simp add: normalize_line_def)
qed

text \<open>
  The hunk line of the specification, a line that does not begin with at-signs, and a
  line that begins with at-signs and holds no marker pair.
\<close>

theorem normalize_diff_linewise_witness:
  "''@@ -1,2 +1,3 @@ func foo() {''
      \<in> set (split_nl (join_nl [''@@ x'', ''@@ -1,2 +1,3 @@ func foo() {'', ''+x'']))
   \<and> AT \<notin> set '' -1,2 +1,3 ''
   \<and> normalize_line ''@@ -1,2 +1,3 @@ func foo() {'' = ''@@ -1,2 +1,3 @@''
   \<and> ''+x'' \<in> set (split_nl (join_nl [''@@ x'', ''@@ -1,2 +1,3 @@ func foo() {'', ''+x'']))
   \<and> \<not> startswith ''+x'' ''@@''
   \<and> normalize_line ''+x'' = ''+x''
   \<and> ''@@ x'' \<in> set (split_nl (join_nl [''@@ x'', ''@@ -1,2 +1,3 @@ func foo() {'', ''+x'']))
   \<and> startswith ''@@ x'' ''@@''
   \<and> normalize_line ''@@ x'' = ''@@ x''"
proof -
  let ?x = "join_nl [''@@ x'', ''@@ -1,2 +1,3 @@ func foo() {'', ''+x'']"
  have sp: "split_nl ?x = [''@@ x'', ''@@ -1,2 +1,3 @@ func foo() {'', ''+x'']"
    by (simp add: NL_def)
  have h1: "''@@ -1,2 +1,3 @@ func foo() {'' \<in> set (split_nl ?x)" by (simp only: sp) simp
  have h2: "''+x'' \<in> set (split_nl ?x)" by (simp only: sp) simp
  have h3: "''@@ x'' \<in> set (split_nl ?x)" by (simp only: sp) simp
  have a: "AT \<notin> set '' -1,2 +1,3 ''" by (simp add: AT_def)
  have d: "''@@ -1,2 +1,3 @@ func foo() {'' = ''@@'' @ '' -1,2 +1,3 '' @ ''@@'' @ '' func foo() {''"
    by simp
  have n: "\<not> startswith ''+x'' ''@@''" by (simp add: startswith_def)
  have st: "startswith ''@@ x'' ''@@''" by (simp add: startswith_def)
  have m: "\<nexists>p s rest. ''@@ x'' = p @ ''@@'' @ s @ ''@@'' @ rest \<and> AT \<notin> set s"
  proof
    assume "\<exists>p s rest. ''@@ x'' = p @ ''@@'' @ s @ ''@@'' @ rest \<and> AT \<notin> set s"
    then obtain p s rest where e: "''@@ x'' = p @ ''@@'' @ s @ ''@@'' @ rest" by blast
    then have "length ''@@ x'' = length (p @ ''@@'' @ s @ ''@@'' @ rest)" by (rule arg_cong)
    then have "p = []" and "s = []" and "rest = []" by simp_all
    with e show False by simp
  qed
  from normalize_diff_linewise [of ?x] h1 d a
  have r1: "normalize_line ''@@ -1,2 +1,3 @@ func foo() {'' = ''@@'' @ '' -1,2 +1,3 '' @ ''@@''"
    by blast
  from normalize_diff_linewise [of ?x] h2 n
  have r2: "normalize_line ''+x'' = ''+x''" by blast
  from normalize_diff_linewise [of ?x] h3 m
  have r3: "normalize_line ''@@ x'' = ''@@ x''" by blast
  from h1 h2 h3 a n st r1 r2 r3 show ?thesis by simp
qed

text \<open>
  Claim C4 as stated fails where it lets every other line pass unchanged. The pattern
  does not match at the first character of the line \<open>@@@ a @@ b\<close>, so the line does
  not begin with a marker pair; the substitution finds the pattern from the second
  character on and removes what follows that match. However the pair of the line
  \<open>@@a@b@@c@@d@@e\<close> is read, the line is neither unchanged nor cut behind its
  first or its last two at-signs.
\<close>

theorem normalize_line_counterexample:
  "match_hunk ''@@@ a @@ b'' = None
   \<and> normalize_diff ''@@@ a @@ b'' = ''@@@ a @@''
   \<and> normalize_diff ''@@@ a @@ b'' \<noteq> ''@@@ a @@ b''
   \<and> match_hunk ''@@a@b@@c@@d@@e'' = None
   \<and> normalize_diff ''@@a@b@@c@@d@@e'' = ''@@a@b@@c@@''"
  by (simp add: normalize_diff_def normalize_line_def match_hunk_def startswith_def AT_def NL_def)

section \<open>Properties of the event filter\<close>

lemma startswith_iff: "startswith s p \<longleftrightarrow> (\<exists>t. s = p @ t)"
  unfolding startswith_def
  by (metis append_eq_conv_conj append_take_drop_id)

lemma contains_iff: "contains s needle \<longleftrightarrow> (\<exists>p t. s = p @ needle @ t)"
proof (induction s)
  case Nil
  show ?case by auto
next
  case (Cons c cs)
  show ?case
  proof
    assume "contains (c # cs) needle"
    then consider "startswith (c # cs) needle" | "contains cs needle" by auto
    then show "\<exists>p t. c # cs = p @ needle @ t"
    proof cases
      case 1
      then obtain t where "c # cs = [] @ needle @ t" by (auto simp: startswith_iff)
      then show ?thesis by blast
    next
      case 2
      with Cons obtain p t where "cs = p @ needle @ t" by auto
      then have "c # cs = (c # p) @ needle @ t" by simp
      then show ?thesis by blast
    qed
  next
    assume "\<exists>p t. c # cs = p @ needle @ t"
    then obtain p t where e: "c # cs = p @ needle @ t" by blast
    show "contains (c # cs) needle"
    proof (cases p)
      case Nil
      with e have "startswith (c # cs) needle" by (auto simp: startswith_iff)
      then show ?thesis by simp
    next
      case (Cons a p')
      with e have "cs = p' @ needle @ t" by simp
      with Cons.IH have "contains cs needle" by blast
      then show ?thesis by simp
    qed
  qed
qed

text \<open>
  Claim C5. A call of the handler gets past its first test, to the debounce check and
  the pipeline, exactly when the event is not a directory event and the text
  \<open>.git\<close> occurs nowhere in its path; an event that does not get past it leaves the
  handler as it was. The event of an ordinary file whose path holds \<open>.git\<close> inside
  a file name is discarded.
\<close>

theorem on_any_event_filter:
  "(fst (on_any_event w now self ev) \<noteq> Ignored)
     = (\<not> is_directory ev \<and> \<not> (\<exists>p t. src_path ev = p @ ''.git'' @ t))
   \<and> (fst (on_any_event w now self ev) = Ignored \<longrightarrow> snd (on_any_event w now self ev) = self)
   \<and> fst (on_any_event w now self \<lparr>src_path = ''/repo/docs/intro.github.md'', is_directory = False\<rparr>)
       = Ignored"
proof -
  have c: "contains (src_path ev) ''.git'' = (\<exists>p t. src_path ev = p @ ''.git'' @ t)"
    by (rule contains_iff)
  have "contains ''/repo/docs/intro.github.md'' ''.git''"
    by (simp add: startswith_def)
  then show ?thesis
    unfolding c [symmetric] by (simp add: on_any_event_def)
qed


theorem on_any_event_filter_witness:
  "fst (on_any_event (world_with (Completed 0 [] [])) (100::real)
          (RepositoryChangeHandler_init ''/repo'' sample_llm 10)
          \<lparr>src_path = ''/repo/src'', is_directory = True\<rparr>) = Ignored
   \<and> snd (on_any_event (world_with (Completed 0 [] [])) (100::real)
          (RepositoryChangeHandler_init ''/repo'' sample_llm 10)
          \<lparr>src_path = ''/repo/src'', is_directory = True\<rparr>)
       = RepositoryChangeHandler_init ''/repo'' sample_llm 10"
proof -
  have h: "fst (on_any_event (world_with (Completed 0 [] [])) (100::real)
          (RepositoryChangeHandler_init ''/repo'' sample_llm 10)
          \<lparr>src_path = ''/repo/src'', is_directory = True\<rparr>) = Ignored"
    by (simp add: on_any_event_def)
  from on_any_event_filter [of "world_with (Completed 0 [] [])" "100::real"
      "RepositoryChangeHandler_init ''/repo'' sample_llm 10"
      "\<lparr>src_path = ''/repo/src'', is_directory = True\<rparr>"] h
  show ?thesis by blast
qed

section \<open>Properties of the client\<close>

text \<open>
  Claim C6. For every question and every diff the prompt has exactly two messages, the
  first with the role system and the second with the role user. The system message is
  one fixed text, the same for all questions and diffs. The user message holds the diff
  as it is between the context tags and the question as it is between the question
  tags. The prompt is a function of the two texts alone.
\<close>

theorem get_prompt_shape:
  "length (get_prompt question context) = 2
   \<and> map role (get_prompt question context) = [''system'', ''user'']
   \<and> content (get_prompt question context ! 0) = SYSTEM_CONTENT
   \<and> content (get_prompt question context ! 0) = content (get_prompt question' context' ! 0)
   \<and> content (get_prompt question context ! 1)
       = USER_HEAD @ ''<context>'' @ context @ ''</context>'' @ [NL]
           @ ''<question>'' @ question @ ''</question>'' @ [NL]"
  by (simp add: get_prompt_def)

text \<open>
  Claim C7. The request that \<open>invoke\<close> sends has temperature 0, the prompt as its
  messages and the model name of the client. The service is asked this one request and
  nothing else: two services that answer it alike give the same result. When the
  service answers with at least one choice, \<open>invoke\<close> returns the content of the
  message of the first choice.
\<close>

theorem invoke_request:
  "temperature (completion_request self question context) = 0
   \<and> messages (completion_request self question context) = get_prompt question context
   \<and> model (completion_request self question context) = model_name self
   \<and> (service (base_url self) (api_key self) (completion_request self question context)
         = service' (base_url self) (api_key self) (completion_request self question context)
       \<longrightarrow> invoke service self question context = invoke service' self question context)
   \<and> (service (base_url self) (api_key self) (completion_request self question context)
         = Inr chat_response \<and> choices chat_response = c # cs
       \<longrightarrow> invoke service self question context = Inr (content (message c)))"
  by (simp add: completion_request_def invoke_def)

theorem invoke_request_witness:
  "answering ''Fix typo in README'' (base_url sample_llm) (api_key sample_llm)
       (completion_request sample_llm DEFAULT_QUESTION ''+x'')
     = Inr \<lparr>choices = [\<lparr>message = \<lparr>role = ''assistant'', content = ''Fix typo in README''\<rparr>\<rparr>]\<rparr>
   \<and> invoke (answering ''Fix typo in README'') sample_llm DEFAULT_QUESTION ''+x''
     = Inr ''Fix typo in README''"
proof -
  let ?resp = "\<lparr>choices = [\<lparr>message = \<lparr>role = ''assistant'', content = ''Fix typo in README''\<rparr>\<rparr>]\<rparr>"
  have h: "answering ''Fix typo in README'' (base_url sample_llm) (api_key sample_llm)
       (completion_request sample_llm DEFAULT_QUESTION ''+x'') = Inr ?resp"
    by (simp add: answering_def)
  have c: "choices ?resp = \<lparr>message = \<lparr>role = ''assistant'', content = ''Fix typo in README''\<rparr>\<rparr> # []"
    by simp
  from invoke_request [of sample_llm DEFAULT_QUESTION "''+x''" "answering ''Fix typo in README''"
      "answering ''Fix typo in README''" ?resp
      "\<lparr>message = \<lparr>role = ''assistant'', content = ''Fix typo in README''\<rparr>\<rparr>" "[]"] h c
  have "invoke (answering ''Fix typo in README'') sample_llm DEFAULT_QUESTION ''+x''
     = Inr (content (message \<lparr>message = \<lparr>role = ''assistant'', content = ''Fix typo in README''\<rparr>\<rparr>))"
    by blast
  with h show ?thesis by simp
qed

section \<open>Properties of the pipeline\<close>

lemma re_sub_hunk_Nil: "re_sub_hunk s = [] \<Longrightarrow> s = []"
  by (cases s) (auto split: option.splits dest: match_hunk_SomeD)

lemma normalize_diff_Nil: "normalize_diff out = [] \<longleftrightarrow> out = []"
proof
  assume e: "normalize_diff out = []"
  have "map normalize_line (split_nl out) = [[]]"
    using split_normalize_diff [of out] e by simp
  then obtain l where l: "split_nl out = [l]" and n: "normalize_line l = []" by auto
  from n have "l = []"
    by (auto simp: normalize_line_def dest: re_sub_hunk_Nil split: if_splits)
  with l have "join_nl (split_nl out) = []" by simp
  then show "out = []" by (simp add: join_split_nl)
next
  assume "out = []"
  then show "normalize_diff out = []"
    by (simp add: normalize_diff_def normalize_line_def startswith_def)
qed

lemma replace_crlf_Nil: "replace_crlf s = [] \<longleftrightarrow> s = []"
  by (induction s rule: replace_crlf.induct) auto

lemma translate_newlines_Nil: "translate_newlines s = [] \<longleftrightarrow> s = []"
  by (simp add: translate_newlines_def replace_cr_def replace_crlf_Nil)

lemma subprocess_run_Inr:
  "subprocess_run codec p = Inr t
     \<longleftrightarrow> (\<exists>out err out_text err_text. p = Completed 0 out err \<and> codec out = Inr out_text
            \<and> codec err = Inr err_text \<and> t = translate_newlines out_text)"
  by (cases p) (auto simp: subprocess_run_def split: sum.splits)

lemma sent_only_after_extraction:
  assumes "sent (run_git_diff_analysis w path llm) \<noteq> []"
  shows "\<exists>t. subprocess_run (decode w) (run_process w GIT_DIFF path) = Inr t \<and> t \<noteq> []"
proof (cases "subprocess_run (decode w) (run_process w GIT_DIFF path)")
  case (Inl e)
  with assms show ?thesis
    by (cases e) (simp_all add: run_git_diff_analysis_def)
next
  case (Inr t)
  with assms have "normalize_diff t \<noteq> []"
    by (auto simp: run_git_diff_analysis_def Let_def split: if_splits)
  with Inr show ?thesis by (simp add: normalize_diff_Nil)
qed

text \<open>
  Claim C1, amended. When the diff command ends with status 0, both captured streams
  decode, and the decoded standard output is the empty text (nothing is trimmed), the
  run prints the notice that there are no changes, sends nothing to the completion
  service and returns. A request goes to the completion service only when the command
  has ended with status 0, both streams decode, and the decoded output is not the
  empty text.
\<close>

theorem empty_diff_skips_completion:
  "(run_process w GIT_DIFF path = Completed 0 out err
      \<and> decode w out = Inr [] \<and> decode w err = Inr err_text
      \<longrightarrow> run_git_diff_analysis w path llm
           = \<lparr>stdout = [''No changes found''], stderr = [], sent = [], raised = None\<rparr>)
   \<and> (sent (run_git_diff_analysis w path llm) \<noteq> []
      \<longrightarrow> (\<exists>out err out_text err_text.
             run_process w GIT_DIFF path = Completed 0 out err
             \<and> decode w out = Inr out_text \<and> decode w err = Inr err_text
             \<and> out_text \<noteq> []))"
proof (intro conjI impI)
  assume "run_process w GIT_DIFF path = Completed 0 out err
      \<and> decode w out = Inr [] \<and> decode w err = Inr err_text"
  then have "subprocess_run (decode w) (run_process w GIT_DIFF path) = Inr []"
    by (simp add: subprocess_run_def translate_newlines_Nil)
  then show "run_git_diff_analysis w path llm
           = \<lparr>stdout = [''No changes found''], stderr = [], sent = [], raised = None\<rparr>"
    by (simp add: run_git_diff_analysis_def normalize_diff_Nil)
next
  assume "sent (run_git_diff_analysis w path llm) \<noteq> []"
  then obtain t where t: "subprocess_run (decode w) (run_process w GIT_DIFF path) = Inr t"
    and n: "t \<noteq> []"
    using sent_only_after_extraction by blast
  from t obtain out err out_text err_text where
    "run_process w GIT_DIFF path = Completed 0 out err" "decode w out = Inr out_text"
    "decode w err = Inr err_text" "t = translate_newlines out_text"
    unfolding subprocess_run_Inr by blast
  moreover with n have "out_text \<noteq> []" by (simp add: translate_newlines_Nil)
  ultimately show "\<exists>out err out_text err_text.
             run_process w GIT_DIFF path = Completed 0 out err
             \<and> decode w out = Inr out_text \<and> decode w err = Inr err_text
             \<and> out_text \<noteq> []" by blast
qed

theorem empty_diff_skips_completion_witness:
  "run_process (world_with (Completed 0 [] [])) GIT_DIFF ''/repo'' = Completed 0 [] []
   \<and> decode (world_with (Completed 0 [] [])) [] = Inr []
   \<and> run_git_diff_analysis (world_with (Completed 0 [] [])) ''/repo'' sample_llm
       = \<lparr>stdout = [''No changes found''], stderr = [], sent = [], raised = None\<rparr>
   \<and> sent (run_git_diff_analysis (world_with (Completed 0 ''+x'' [])) ''/repo'' sample_llm) \<noteq> []
   \<and> (\<exists>out err out_text err_text.
         run_process (world_with (Completed 0 ''+x'' [])) GIT_DIFF ''/repo'' = Completed 0 out err
         \<and> decode (world_with (Completed 0 ''+x'' [])) out = Inr out_text
         \<and> decode (world_with (Completed 0 ''+x'' [])) err = Inr err_text
         \<and> out_text \<noteq> [])"
proof -
  have h1: "run_process (world_with (Completed 0 [] [])) GIT_DIFF ''/repo'' = Completed 0 [] []"
    by (simp add: world_with_def)
  have h2: "decode (world_with (Completed 0 [] [])) [] = Inr []"
    by (simp add: world_with_def sample_codec_def)
  have c: "sample_codec ''+x'' = Inr ''+x''"
    by (simp add: sample_codec_def)
  have h3: "sent (run_git_diff_analysis (world_with (Completed 0 ''+x'' [])) ''/repo'' sample_llm) \<noteq> []"
    by (simp add: run_git_diff_analysis_def subprocess_run_def world_with_def c
        sample_codec_def translate_newlines_def replace_cr_def CR_def normalize_diff_def
        normalize_line_def startswith_def invoke_def answering_def Let_def NL_def)
  from empty_diff_skips_completion [of "world_with (Completed 0 [] [])" "''/repo''" "[]" "[]" "[]"
      sample_llm] h1 h2
  have r1: "run_git_diff_analysis (world_with (Completed 0 [] [])) ''/repo'' sample_llm
       = \<lparr>stdout = [''No changes found''], stderr = [], sent = [], raised = None\<rparr>" by blast
  from empty_diff_skips_completion [of "world_with (Completed 0 ''+x'' [])" "''/repo''" "[]" "[]" "[]"
      sample_llm] h3
  have r2: "\<exists>out err out_text err_text.
         run_process (world_with (Completed 0 ''+x'' [])) GIT_DIFF ''/repo'' = Completed 0 out err
         \<and> decode (world_with (Completed 0 ''+x'' [])) out = Inr out_text
         \<and> decode (world_with (Completed 0 ''+x'' [])) err = Inr err_text
         \<and> out_text \<noteq> []" by blast
  from h1 h2 h3 r1 r2 show ?thesis by blast
qed

text \<open>
  Claim C1 as stated fails on an output that is empty only after trimming: with a
  single line feed as the output of the diff command the run prints the banner and the
  answer and sends a request. It also fails for a run whose command ends with a
  non-zero status and an empty output, and for a run whose command ends with status 0
  and an empty output but an error stream that does not decode: such runs print a
  line to standard error and no notice.
\<close>

theorem blank_diff_counterexample:
  "sent (run_git_diff_analysis (world_with (Completed 0 [NL] [])) ''/repo'' sample_llm)
     = [completion_request sample_llm DEFAULT_QUESTION [NL]]
   \<and> stdout (run_git_diff_analysis (world_with (Completed 0 [NL] [])) ''/repo'' sample_llm)
     = banner ''2025-01-01 12:00:00'' @ [''Fix typo in README'']
   \<and> run_git_diff_analysis (world_with (Completed 1 [] ''fatal: bad revision'')) ''/repo'' sample_llm
     = \<lparr>stdout = [], stderr = [''Error running git diff: fatal: bad revision''],
        sent = [], raised = None\<rparr>
   \<and> run_git_diff_analysis (world_with (Completed 0 [] [CHR 0xFF])) ''/repo'' sample_llm
     = \<lparr>stdout = [],
        stderr = [''Error: utf-8 codec can not decode byte: invalid start byte''],
        sent = [], raised = None\<rparr>"
proof -
  have c: "sample_codec [NL] = Inr [NL]" "sample_codec [] = Inr []"
    "sample_codec ''fatal: bad revision'' = Inr ''fatal: bad revision''"
    "sample_codec [CHR 0xFF] = Inl ''utf-8 codec can not decode byte: invalid start byte''"
    by (simp_all add: sample_codec_def NL_def)
  have t: "translate_newlines [NL] = [NL]"
    "translate_newlines ''fatal: bad revision'' = ''fatal: bad revision''"
    "translate_newlines [] = []"
    by (simp_all add: translate_newlines_def replace_cr_def CR_def NL_def)
  have n: "normalize_diff [NL] = [NL]"
    by (simp add: normalize_diff_def normalize_line_def startswith_def Let_def)
  show ?thesis
    by (simp add: run_git_diff_analysis_def subprocess_run_def world_with_def c t n
        invoke_def answering_def)
qed

section \<open>Properties of the handler\<close>

lemma deliver_Cons:
  "deliver self ((w, now, ev) # rest)
     = (fst (on_any_event w now self ev) # fst (deliver (snd (on_any_event w now self ev)) rest),
        snd (deliver (snd (on_any_event w now self ev)) rest))"
  by (simp add: case_prod_unfold Let_def)

lemma on_any_event_qualifying:
  "\<not> ignored ev \<Longrightarrow> on_any_event w now self ev
     = (if debounce_seconds self \<le> now - last_trigger_time self
        then (Ran (run_git_diff_analysis w (repository_path self) (client self)),
              self\<lparr>last_trigger_time := now\<rparr>)
        else (Debounced, self))"
  by (simp add: on_any_event_def ignored_def)

lemma on_any_event_state:
  "snd (on_any_event w now self ev) = snd (on_any_event w' now self ev)"
  by (simp add: on_any_event_def)


lemma sample_codec_bad_byte:
  "sample_codec [CHR 0xFF] = Inl ''utf-8 codec can not decode byte: invalid start byte''"
  by (simp add: sample_codec_def)

lemma sample_codec_plain:
  "sample_codec [] = Inr []"
  "sample_codec ''fatal: bad revision'' = Inr ''fatal: bad revision''"
  by (simp_all add: sample_codec_def)

lemma translate_newlines_plain:
  "translate_newlines [] = []"
  "translate_newlines ''fatal: bad revision'' = ''fatal: bad revision''"
  by (simp_all add: translate_newlines_def replace_cr_def CR_def NL_def)

text \<open>
  Claim C8, amended in what is printed. When the diff command ends with a non-zero
  status, the run prints one line to standard error, sends nothing to the completion
  service and returns without an exception. The line is the captured error stream,
  decoded and with its line ends translated, when both captured streams decode; when
  one of them does not, it is the message of the codec. The handler is left in the
  state in which any other outcome of the command would have left it, so the events
  that follow are handled as they would have been after a run without failure.
\<close>

theorem diff_failure_is_skipped:
  assumes "returncode \<noteq> 0"
    and "run_process w GIT_DIFF (repository_path self) = Completed returncode out err"
  shows "(decode w out = Inr out_text \<and> decode w err = Inr err_text
            \<longrightarrow> run_git_diff_analysis w (repository_path self) (client self)
                 = \<lparr>stdout = [],
                    stderr = [''Error running git diff: '' @ translate_newlines err_text],
                    sent = [], raised = None\<rparr>)
   \<and> (decode w out = Inl msg \<or> (decode w out = Inr out_text \<and> decode w err = Inl msg)
        \<longrightarrow> run_git_diff_analysis w (repository_path self) (client self)
             = \<lparr>stdout = [], stderr = [''Error: '' @ msg], sent = [], raised = None\<rparr>)
   \<and> stdout (run_git_diff_analysis w (repository_path self) (client self)) = []
   \<and> length (stderr (run_git_diff_analysis w (repository_path self) (client self))) = 1
   \<and> sent (run_git_diff_analysis w (repository_path self) (client self)) = []
   \<and> raised (run_git_diff_analysis w (repository_path self) (client self)) = None
   \<and> snd (on_any_event w now self ev) = snd (on_any_event w' now self ev)
   \<and> deliver self ((w, now, ev) # rest)
       = (fst (on_any_event w now self ev)
            # fst (deliver (snd (on_any_event w' now self ev)) rest),
          snd (deliver (snd (on_any_event w' now self ev)) rest))"
proof -
  let ?r = "run_git_diff_analysis w (repository_path self) (client self)"
  have a: "decode w out = Inr out_text \<and> decode w err = Inr err_text
            \<longrightarrow> ?r = \<lparr>stdout = [],
                    stderr = [''Error running git diff: '' @ translate_newlines err_text],
                    sent = [], raised = None\<rparr>"
    using assms by (simp add: run_git_diff_analysis_def subprocess_run_def)
  have b: "decode w out = Inl msg \<or> (decode w out = Inr out_text \<and> decode w err = Inl msg)
        \<longrightarrow> ?r = \<lparr>stdout = [], stderr = [''Error: '' @ msg], sent = [], raised = None\<rparr>"
    using assms by (auto simp: run_git_diff_analysis_def subprocess_run_def)
  have c: "stdout ?r = [] \<and> length (stderr ?r) = 1 \<and> sent ?r = [] \<and> raised ?r = None"
    using assms
    by (auto simp: run_git_diff_analysis_def subprocess_run_def split: sum.splits)
  have d: "snd (on_any_event w now self ev) = snd (on_any_event w' now self ev)"
    by (rule on_any_event_state)
  have e: "deliver self ((w, now, ev) # rest)
       = (fst (on_any_event w now self ev)
            # fst (deliver (snd (on_any_event w' now self ev)) rest),
          snd (deliver (snd (on_any_event w' now self ev)) rest))"
    unfolding on_any_event_state [of w' now self ev w] by (rule deliver_Cons)
  from a b c d e show ?thesis by blast
qed

text \<open>
  A command that ends with status 128 and a readable error stream, followed by two
  more events; and a command that ends with status 128 and an error stream the codec
  refuses.
\<close>

theorem diff_failure_is_skipped_witness:
  "(128::int) \<noteq> 0
   \<and> run_process (world_with (Completed 128 [] ''fatal: bad revision'')) GIT_DIFF
        (repository_path (RepositoryChangeHandler_init ''/repo'' sample_llm (10::real)))
       = Completed 128 [] ''fatal: bad revision''
   \<and> decode (world_with (Completed 128 [] ''fatal: bad revision'')) [] = Inr []
   \<and> decode (world_with (Completed 128 [] ''fatal: bad revision'')) ''fatal: bad revision''
       = Inr ''fatal: bad revision''
   \<and> deliver (RepositoryChangeHandler_init ''/repo'' sample_llm (10::real))
        [(world_with (Completed 128 [] ''fatal: bad revision''), 100, file_event ''/repo/a.py''),
         (world_with (Completed 0 [] []), 105, file_event ''/repo/a.py''),
         (world_with (Completed 0 [] []), 110, file_event ''/repo/a.py'')]
       = ([Ran \<lparr>stdout = [], stderr = [''Error running git diff: fatal: bad revision''],
                 sent = [], raised = None\<rparr>,
           Debounced,
           Ran \<lparr>stdout = [''No changes found''], stderr = [], sent = [], raised = None\<rparr>],
          \<lparr>repository_path = ''/repo'', client = sample_llm,
           debounce_seconds = 10, last_trigger_time = 110\<rparr>)
   \<and> run_process (world_with (Completed 128 [] [CHR 0xFF])) GIT_DIFF
        (repository_path (RepositoryChangeHandler_init ''/repo'' sample_llm (10::real)))
       = Completed 128 [] [CHR 0xFF]
   \<and> decode (world_with (Completed 128 [] [CHR 0xFF])) [CHR 0xFF]
       = Inl ''utf-8 codec can not decode byte: invalid start byte''
   \<and> run_git_diff_analysis (world_with (Completed 128 [] [CHR 0xFF])) ''/repo'' sample_llm
       = \<lparr>stdout = [],
          stderr = [''Error: utf-8 codec can not decode byte: invalid start byte''],
          sent = [], raised = None\<rparr>"
proof -
  let ?w = "world_with (Completed 128 [] ''fatal: bad revision'')"
  let ?w' = "world_with (Completed 0 [] [])"
  let ?u = "world_with (Completed 128 [] [CHR 0xFF])"
  let ?h = "RepositoryChangeHandler_init ''/repo'' sample_llm (10::real)"
  let ?e = "file_event ''/repo/a.py''"
  let ?rest = "[(?w', 105::real, ?e), (?w', 110, ?e)]"
  have h1: "(128::int) \<noteq> 0" by simp
  have h2: "run_process ?w GIT_DIFF (repository_path ?h) = Completed 128 [] ''fatal: bad revision''"
    by (simp add: world_with_def)
  have h3: "decode ?w [] = Inr []"
    and h4: "decode ?w ''fatal: bad revision'' = Inr ''fatal: bad revision''"
    by (simp_all add: world_with_def sample_codec_plain)
  have h5: "run_process ?u GIT_DIFF (repository_path ?h) = Completed 128 [] [CHR 0xFF]"
    by (simp add: world_with_def)
  have h6: "decode ?u [] = Inr []"
    and h7: "decode ?u [CHR 0xFF] = Inl ''utf-8 codec can not decode byte: invalid start byte''"
    by (simp_all add: world_with_def sample_codec_plain sample_codec_bad_byte)
  have p: "repository_path ?h = ''/repo''" "client ?h = sample_llm"
    by (simp_all add: RepositoryChangeHandler_init_def)
  have ni: "\<not> ignored ?e"
    by (simp add: ignored_def file_event_def startswith_def)
  have ok: "run_git_diff_analysis ?w' ''/repo'' sample_llm
      = \<lparr>stdout = [''No changes found''], stderr = [], sent = [], raised = None\<rparr>"
    by (simp add: run_git_diff_analysis_def subprocess_run_def world_with_def
        sample_codec_plain translate_newlines_plain normalize_diff_Nil)
  note t = diff_failure_is_skipped [OF h1 h2, where out_text = "[]"
      and err_text = "''fatal: bad revision''" and now = 100 and ev = ?e and w' = ?w'
      and rest = ?rest]
  from t h3 h4 have bad: "run_git_diff_analysis ?w ''/repo'' sample_llm
      = \<lparr>stdout = [], stderr = [''Error running git diff: fatal: bad revision''],
         sent = [], raised = None\<rparr>"
    by (simp add: p translate_newlines_plain)
  from t have d: "deliver ?h ((?w, 100, ?e) # ?rest)
       = (fst (on_any_event ?w 100 ?h ?e)
            # fst (deliver (snd (on_any_event ?w' 100 ?h ?e)) ?rest),
          snd (deliver (snd (on_any_event ?w' 100 ?h ?e)) ?rest))"
    by blast
  have r1: "deliver ?h [(?w, 100, ?e), (?w', 105, ?e), (?w', 110, ?e)]
       = ([Ran \<lparr>stdout = [], stderr = [''Error running git diff: fatal: bad revision''],
                 sent = [], raised = None\<rparr>,
           Debounced,
           Ran \<lparr>stdout = [''No changes found''], stderr = [], sent = [], raised = None\<rparr>],
          \<lparr>repository_path = ''/repo'', client = sample_llm,
           debounce_seconds = 10, last_trigger_time = 110\<rparr>)"
    unfolding d
    by (simp add: on_any_event_qualifying [OF ni] RepositoryChangeHandler_init_def bad ok)
  from diff_failure_is_skipped [OF h1 h5, where out_text = "[]"
      and msg = "''utf-8 codec can not decode byte: invalid start byte''"] h6 h7
  have r2: "run_git_diff_analysis ?u ''/repo'' sample_llm
       = \<lparr>stdout = [],
          stderr = [''Error: utf-8 codec can not decode byte: invalid start byte''],
          sent = [], raised = None\<rparr>"
    by (simp add: p)
  from h1 h2 h3 h4 r1 h5 h7 r2 show ?thesis by blast
qed

text \<open>
  Claim C8 as stated fails where the captured streams do not decode: the text mode of
  \<^verbatim>\<open>subprocess.run\<close> raises on the byte \<open>0xFF\<close> before the return code is looked at,
  the clause for \<^verbatim>\<open>Exception\<close> catches that, and the line printed is the message of
  the codec and not the captured error stream.
\<close>

theorem undecodable_stderr_counterexample:
  "run_git_diff_analysis (world_with (Completed 128 [] [CHR 0xFF])) ''/repo'' sample_llm
     = \<lparr>stdout = [],
        stderr = [''Error: utf-8 codec can not decode byte: invalid start byte''],
        sent = [], raised = None\<rparr>
   \<and> stderr (run_git_diff_analysis (world_with (Completed 128 [] [CHR 0xFF])) ''/repo'' sample_llm)
     \<noteq> [''Error running git diff: '' @ [CHR 0xFF]]"
  by (simp add: run_git_diff_analysis_def subprocess_run_def world_with_def
      sample_codec_plain sample_codec_bad_byte)

text \<open>
  Claim C10, amended. Every exception that running the diff command raises and that is
  an instance of \<open>Exception\<close> is caught: the run prints one line to standard error,
  sends nothing to the completion service and returns without an exception. An
  exception that is not an instance of \<open>Exception\<close> leaves the function.
\<close>

theorem extraction_failures_are_caught:
  "(subprocess_run (decode w) (run_process w GIT_DIFF path) = Inl e \<and> is_Exception e
      \<longrightarrow> run_git_diff_analysis w path llm
           = \<lparr>stdout = [],
              stderr = [case e of
                          CalledProcessError returncode out err \<Rightarrow>
                            ''Error running git diff: '' @ err
                        | OtherException s \<Rightarrow> ''Error: '' @ s
                        | NonException s \<Rightarrow> []],
              sent = [], raised = None\<rparr>)
   \<and> (subprocess_run (decode w) (run_process w GIT_DIFF path) = Inl e \<and> \<not> is_Exception e
      \<longrightarrow> run_git_diff_analysis w path llm
           = \<lparr>stdout = [], stderr = [], sent = [], raised = Some e\<rparr>)"
  by (cases e) (simp_all add: run_git_diff_analysis_def)

theorem extraction_failures_are_caught_witness:
  "subprocess_run
       (decode (world_with (NotCompleted (OtherException
          ''[Errno 2] No such file or directory: git''))))
       (run_process (world_with (NotCompleted (OtherException
          ''[Errno 2] No such file or directory: git''))) GIT_DIFF ''/repo'')
     = Inl (OtherException ''[Errno 2] No such file or directory: git'')
   \<and> is_Exception (OtherException ''[Errno 2] No such file or directory: git'')
   \<and> run_git_diff_analysis (world_with (NotCompleted (OtherException
        ''[Errno 2] No such file or directory: git''))) ''/repo'' sample_llm
       = \<lparr>stdout = [], stderr = [''Error: [Errno 2] No such file or directory: git''],
          sent = [], raised = None\<rparr>
   \<and> subprocess_run
       (decode (world_with (NotCompleted (NonException ''KeyboardInterrupt''))))
       (run_process (world_with (NotCompleted (NonException
          ''KeyboardInterrupt''))) GIT_DIFF ''/repo'')
     = Inl (NonException ''KeyboardInterrupt'')
   \<and> \<not> is_Exception (NonException ''KeyboardInterrupt'')
   \<and> run_git_diff_analysis (world_with (NotCompleted (NonException
        ''KeyboardInterrupt''))) ''/repo'' sample_llm
       = \<lparr>stdout = [], stderr = [], sent = [], raised = Some (NonException ''KeyboardInterrupt'')\<rparr>"
proof -
  let ?e = "OtherException ''[Errno 2] No such file or directory: git''"
  let ?k = "NonException ''KeyboardInterrupt''"
  have h1: "subprocess_run (decode (world_with (NotCompleted ?e)))
      (run_process (world_with (NotCompleted ?e)) GIT_DIFF ''/repo'') = Inl ?e"
    by (simp add: world_with_def subprocess_run_def)
  have h2: "is_Exception ?e" by simp
  have h3: "subprocess_run (decode (world_with (NotCompleted ?k)))
      (run_process (world_with (NotCompleted ?k)) GIT_DIFF ''/repo'') = Inl ?k"
    by (simp add: world_with_def subprocess_run_def)
  have h4: "\<not> is_Exception ?k" by simp
  from extraction_failures_are_caught [of "world_with (NotCompleted ?e)" "''/repo''" ?e sample_llm] h1 h2
  have r1: "run_git_diff_analysis (world_with (NotCompleted ?e)) ''/repo'' sample_llm
       = \<lparr>stdout = [], stderr = [''Error: [Errno 2] No such file or directory: git''],
          sent = [], raised = None\<rparr>" by simp
  from extraction_failures_are_caught [of "world_with (NotCompleted ?k)" "''/repo''" ?k sample_llm] h3 h4
  have r2: "run_git_diff_analysis (world_with (NotCompleted ?k)) ''/repo'' sample_llm
       = \<lparr>stdout = [], stderr = [], sent = [], raised = Some ?k\<rparr>" by simp
  from h1 h2 h3 h4 r1 r2 show ?thesis by blast
qed

text \<open>
  Claim C10 as stated fails for an interrupt: \<^verbatim>\<open>KeyboardInterrupt\<close> raised while the
  child process runs is not an instance of \<open>Exception\<close>, passes both handlers and
  reaches the caller with nothing printed.
\<close>

theorem interrupt_counterexample:
  "raised (run_git_diff_analysis (world_with (NotCompleted (NonException ''KeyboardInterrupt'')))
       ''/repo'' sample_llm) = Some (NonException ''KeyboardInterrupt'')
   \<and> stderr (run_git_diff_analysis (world_with (NotCompleted (NonException ''KeyboardInterrupt'')))
       ''/repo'' sample_llm) = []"
  by (simp add: run_git_diff_analysis_def subprocess_run_def world_with_def)




section \<open>Properties of the start-up\<close>

text \<open>
  Claim C9. When the resolved repository path does not exist, the program prints the
  error to standard error and exits with status 1, and it has built no client and no
  handler and run no pipeline. When the path exists the check ends nothing: the client
  is built, and then the handler is built and the watch begins, or the pipeline runs once.
\<close>

theorem missing_repository_exits:
  "(\<not> path_exists fs (resolve fs arg_repository)
      \<longrightarrow> (main fs w arg_api_key arg_model arg_port arg_repository arg_watch
             :: ('t::{zero,numeral}) main_report)
           = \<lparr>out_lines = [],
              err_lines = [''Error: Repository path does not exist: ''
                             @ resolve fs arg_repository],
              made_client = None, made_handler = None, runs = [], ending = Exited 1\<rparr>)
   \<and> (path_exists fs (resolve fs arg_repository)
      \<longrightarrow> made_client (main fs w arg_api_key arg_model arg_port arg_repository arg_watch
             :: 't main_report)
           = Some (DistilLabsLLM_init arg_model arg_api_key arg_port)
        \<and> (arg_watch \<longrightarrow>
             made_handler (main fs w arg_api_key arg_model arg_port arg_repository arg_watch
               :: 't main_report)
               = Some (RepositoryChangeHandler_init (resolve fs arg_repository)
                         (DistilLabsLLM_init arg_model arg_api_key arg_port) 10)
             \<and> ending (main fs w arg_api_key arg_model arg_port arg_repository arg_watch
               :: 't main_report) = Watching)
        \<and> (\<not> arg_watch \<longrightarrow>
             runs (main fs w arg_api_key arg_model arg_port arg_repository arg_watch
               :: 't main_report)
               = [run_git_diff_analysis w (resolve fs arg_repository)
                    (DistilLabsLLM_init arg_model arg_api_key arg_port)]))"
  by (simp add: main_def Let_def)

theorem missing_repository_exits_witness:
  "\<not> path_exists only_repo (resolve only_repo ''/nowhere'')
   \<and> (main only_repo (world_with (Completed 0 [] [])) ''EMPTY'' ''commit-bot-llama-1.0-1B''
          11434 ''/nowhere'' True :: real main_report)
       = \<lparr>out_lines = [],
          err_lines = [''Error: Repository path does not exist: /nowhere''],
          made_client = None, made_handler = None, runs = [], ending = Exited 1\<rparr>
   \<and> path_exists only_repo (resolve only_repo ''/repo'')
   \<and> ending (main only_repo (world_with (Completed 0 [] [])) ''EMPTY''
          ''commit-bot-llama-1.0-1B'' 11434 ''/repo'' True :: real main_report) = Watching
   \<and> runs (main only_repo (world_with (Completed 0 [] [])) ''EMPTY''
          ''commit-bot-llama-1.0-1B'' 11434 ''/repo'' False :: real main_report)
       = [run_git_diff_analysis (world_with (Completed 0 [] [])) ''/repo'' sample_llm]"
proof -
  let ?w = "world_with (Completed 0 [] [])"
  have h1: "\<not> path_exists only_repo (resolve only_repo ''/nowhere'')"
    by (simp add: only_repo_def)
  have h2: "path_exists only_repo (resolve only_repo ''/repo'')"
    by (simp add: only_repo_def)
  have r: "resolve only_repo ''/nowhere'' = ''/nowhere''" "resolve only_repo ''/repo'' = ''/repo''"
    by (simp_all add: only_repo_def)
  from missing_repository_exits [where ?'t = real, of only_repo "''/nowhere''" ?w "''EMPTY''"
      "''commit-bot-llama-1.0-1B''" 11434 True] h1 r
  have a: "(main only_repo ?w ''EMPTY'' ''commit-bot-llama-1.0-1B'' 11434 ''/nowhere'' True
             :: real main_report)
       = \<lparr>out_lines = [],
          err_lines = [''Error: Repository path does not exist: /nowhere''],
          made_client = None, made_handler = None, runs = [], ending = Exited 1\<rparr>"
    by simp
  from missing_repository_exits [where ?'t = real, of only_repo "''/repo''" ?w "''EMPTY''"
      "''commit-bot-llama-1.0-1B''" 11434 True] h2
  have b: "ending (main only_repo ?w ''EMPTY'' ''commit-bot-llama-1.0-1B'' 11434 ''/repo'' True
             :: real main_report) = Watching"
    by simp
  from missing_repository_exits [where ?'t = real, of only_repo "''/repo''" ?w "''EMPTY''"
      "''commit-bot-llama-1.0-1B''" 11434 False] h2 r
  have c: "runs (main only_repo ?w ''EMPTY'' ''commit-bot-llama-1.0-1B'' 11434 ''/repo'' False
             :: real main_report)
       = [run_git_diff_analysis ?w ''/repo'' sample_llm]"
    by (simp add: sample_llm_def)
  from h1 h2 a b c show ?thesis by blast
qed


end
